theory Spec2Isabelle
  imports Complex_Main
begin

section \<open>The sphere form-factor kernel (sasmodels/models/sphere.c)\<close>

text \<open>
  The kernel consists of three C functions, \<^verbatim>\<open>form_volume\<close>, \<^verbatim>\<open>Iq\<close> and \<^verbatim>\<open>Fq\<close>.
  They compute with values of type \<^verbatim>\<open>double\<close>; \<^verbatim>\<open>Fq\<close> returns nothing and stores
  its two results through the pointers \<^verbatim>\<open>F1\<close> and \<^verbatim>\<open>F2\<close>.

  \<^item> A \<^verbatim>\<open>double\<close> is modelled by the real number it denotes, following the data
    model of the specification (every quantity there is a real). Rounding, overflow
    and the special values NaN and Inf of IEEE 754 are outside this model.
  \<^item> The memory that holds \<^verbatim>\<open>double\<close> cells is a total function from addresses to
    values; a \<^verbatim>\<open>double *\<close> is an address, and \<^verbatim>\<open>*p = v\<close> is a function update.
\<close>

type_synonym double = real

type_synonym addr = nat

type_synonym memory = "addr \<Rightarrow> double"

subsection \<open>Library primitives that the kernel calls\<close>

text \<open>
  Modelled from the spec: \<^verbatim>\<open>sphere_volume\<close> is called by the kernel but defined in a
  shared geometry library that is not part of the source at hand. The specification
  (section 4.1 and section 8) gives its value as \<open>(4/3) \<cdot> \<pi> \<cdot> radius\<^sup>3\<close>.
\<close>

definition sphere_volume :: "double \<Rightarrow> double" where
  "sphere_volume radius = 4 / 3 * pi * radius ^ 3"

text \<open>
  Modelled from the spec: \<^verbatim>\<open>sas_3j1x_x\<close> is called by the kernel but defined in a
  shared library that is not part of the source at hand. The specification describes
  it as the normalized first-order spherical Bessel function \<open>3 \<cdot> j1(x) / x\<close>, whose
  closed form is \<open>3 \<cdot> sin(x) / x\<^sup>3 - 3 \<cdot> cos(x) / x\<^sup>2\<close>, with the value \<open>1\<close>
  exactly at \<open>x = 0\<close> (sections 4.3 b, 7 and 8).
\<close>

definition sas_3j1x_x :: "double \<Rightarrow> double" where
  "sas_3j1x_x x = (if x = 0 then 1 else 3 * sin x / x ^ 3 - 3 * cos x / x ^ 2)"

text \<open>
  Modelled from the spec: \<^verbatim>\<open>sphere_form\<close> is called by \<^verbatim>\<open>Iq\<close> with the arguments
  \<^verbatim>\<open>(q, radius, sld, sld_solvent)\<close> but defined in a shared library that is not part
  of the source at hand. The specification (section 3) gives the intensity as
  \<open>contrast\<^sup>2 \<cdot> volume\<^sup>2 \<cdot> sas_3j1x_x(q \<cdot> radius)\<^sup>2\<close>, scaled consistently with
  \<open>F2\<close>; as \<open>F1\<close> carries the unit constant \<open>1e-2\<close>, that scale is its square.
\<close>

definition sphere_form :: "double \<Rightarrow> double \<Rightarrow> double \<Rightarrow> double \<Rightarrow> double" where
  "sphere_form q radius sld solvent_sld =
     (let contrast = sld - solvent_sld
      in (0.01) ^ 2 * (contrast ^ 2 * (sphere_volume radius) ^ 2 * (sas_3j1x_x (q * radius)) ^ 2))"

subsection \<open>The kernel\<close>

text \<open>
  \<^verbatim>\<open>
  static double form_volume(double radius)
  {
      return sphere_volume(radius);
  }
  \<close>
\<close>

definition form_volume :: "double \<Rightarrow> double" where
  "form_volume radius = sphere_volume radius"

text \<open>
  \<^verbatim>\<open>
  static double Iq(double q, double sld, double sld_solvent, double radius)
  {
      return sphere_form(q, radius, sld, sld_solvent);
  }
  \<close>
\<close>

definition Iq :: "double \<Rightarrow> double \<Rightarrow> double \<Rightarrow> double \<Rightarrow> double" where
  "Iq q sld sld_solvent radius = sphere_form q radius sld sld_solvent"

text \<open>
  \<^verbatim>\<open>
  static void Fq(double q, double *F1,double *F2, double sld, double solvent_sld, double radius)
  {
      const double fq = sas_3j1x_x(q*radius);
      const double contrast = (sld - solvent_sld);
      const double form = 1e-2 * contrast * sphere_volume(radius) * fq;
      *F1 = form;
      *F2 = form*form;
  }
  \<close>
  The function takes the memory before the call and returns the memory after it. The
  two stores happen in the order of the source, so when both pointers are the same
  address the second store wins. The product is evaluated from left to right, as in C.
\<close>

definition Fq :: "double \<Rightarrow> addr \<Rightarrow> addr \<Rightarrow> double \<Rightarrow> double \<Rightarrow> double \<Rightarrow> memory \<Rightarrow> memory" where
  "Fq q F1 F2 sld solvent_sld radius mem =
     (let fq = sas_3j1x_x (q * radius);
          contrast = sld - solvent_sld;
          form = 0.01 * contrast * sphere_volume radius * fq;
          mem1 = mem(F1 := form);
          mem2 = mem1(F2 := form * form)
      in mem2)"

section \<open>Basic facts about the stores of Fq\<close>

lemma Fq_first_cell:
  "F1 \<noteq> F2 \<Longrightarrow>
   Fq q F1 F2 sld solvent_sld radius mem F1 =
     0.01 * (sld - solvent_sld) * sphere_volume radius * sas_3j1x_x (q * radius)"
  by (simp add: Fq_def Let_def)

lemma Fq_second_cell:
  "Fq q F1 F2 sld solvent_sld radius mem F2 =
     (0.01 * (sld - solvent_sld) * sphere_volume radius * sas_3j1x_x (q * radius)) *
     (0.01 * (sld - solvent_sld) * sphere_volume radius * sas_3j1x_x (q * radius))"
  by (simp add: Fq_def Let_def)

lemma Fq_other_cell:
  "a \<noteq> F1 \<Longrightarrow> a \<noteq> F2 \<Longrightarrow> Fq q F1 F2 sld solvent_sld radius mem a = mem a"
  by (simp add: Fq_def Let_def)

lemma Fq_aliased_cell:
  "Fq q F F sld solvent_sld radius mem F =
     (0.01 * (sld - solvent_sld) * sphere_volume radius * sas_3j1x_x (q * radius)) ^ 2"
  by (simp add: Fq_def Let_def power2_eq_square)

lemma sas_3j1x_x_zero: "sas_3j1x_x 0 = 1"
  by (simp add: sas_3j1x_x_def)

lemma sphere_volume_double: "sphere_volume (2 * radius) = 8 * sphere_volume radius"
  by (simp add: sphere_volume_def power_mult_distrib)

section \<open>The properties of the specification\<close>

text \<open>
  Claim C1. For every \<open>q \<ge> 0\<close>, \<open>sld\<close>, \<open>sld_solvent\<close> and \<open>radius > 0\<close>, the value
  returned by \<^verbatim>\<open>Iq(q, sld, sld_solvent, radius)\<close> is the value that \<^verbatim>\<open>Fq\<close> leaves in
  its second output location \<^verbatim>\<open>F2\<close> for the same arguments. \<^verbatim>\<open>Iq\<close> forwards to
  \<^verbatim>\<open>sphere_form\<close>, which is compared here, as the specification words it, with the
  square that \<^verbatim>\<open>Fq\<close> computes. The second store of \<^verbatim>\<open>Fq\<close> is its last one, so the
  statement holds for any two addresses.
\<close>

theorem Iq_equals_F2:
  assumes "0 \<le> q" and "0 < radius"
  shows "Iq q sld sld_solvent radius = Fq q F1 F2 sld sld_solvent radius mem F2"
proof -
  let ?c = "sld - sld_solvent"
  let ?v = "sphere_volume radius"
  let ?j = "sas_3j1x_x (q * radius)"
  have "Iq q sld sld_solvent radius = (0.01) ^ 2 * (?c ^ 2 * ?v ^ 2 * ?j ^ 2)"
    by (simp add: Iq_def sphere_form_def Let_def)
  also have "\<dots> = (0.01 * ?c * ?v * ?j) * (0.01 * ?c * ?v * ?j)"
    by (simp add: power2_eq_square)
  also have "\<dots> = Fq q F1 F2 sld sld_solvent radius mem F2"
    by (simp only: Fq_second_cell)
  finally show ?thesis .
qed

theorem Iq_equals_F2_witness:
  "(0::real) \<le> 0 \<and> (0::real) < 1 \<and>
   Iq 0 2 1 1 = Fq 0 0 1 2 1 1 (\<lambda>_. 0) 1 \<and> Iq 0 2 1 1 = (pi / 75) ^ 2"
  using Iq_equals_F2 [of 0 1 2 1 0 1 "\<lambda>_. 0"]
  by (simp add: Iq_def sphere_form_def sphere_volume_def sas_3j1x_x_def power2_eq_square)

text \<open>
  Claim C2. For every \<open>q \<ge> 0\<close>, \<open>sld\<close>, \<open>solvent_sld\<close> and \<open>radius > 0\<close>, after a call
  of \<^verbatim>\<open>Fq\<close> with two output locations (two different addresses) the first location
  holds \<open>1e-2 \<cdot> (sld - solvent_sld) \<cdot> sphere_volume(radius) \<cdot> sas_3j1x_x(q \<cdot> radius)\<close>
  and the second location holds the square of that value.
\<close>

theorem Fq_writes_form_and_square:
  assumes "0 \<le> q" and "0 < radius" and "F1 \<noteq> F2"
  shows "Fq q F1 F2 sld solvent_sld radius mem F1 =
           0.01 * (sld - solvent_sld) * sphere_volume radius * sas_3j1x_x (q * radius) \<and>
         Fq q F1 F2 sld solvent_sld radius mem F2 =
           (Fq q F1 F2 sld solvent_sld radius mem F1) ^ 2"
  using assms(3) by (simp add: Fq_first_cell Fq_second_cell power2_eq_square)

theorem Fq_writes_form_and_square_witness:
  "(0::real) \<le> 0 \<and> (0::real) < 3 \<and> (0::nat) \<noteq> 1 \<and>
   Fq 0 0 1 7 1 3 (\<lambda>_. 0) 0 = 0.01 * (7 - 1) * sphere_volume 3 * sas_3j1x_x (0 * 3) \<and>
   Fq 0 0 1 7 1 3 (\<lambda>_. 0) 1 = (Fq 0 0 1 7 1 3 (\<lambda>_. 0) 0) ^ 2"
  using Fq_writes_form_and_square [of 0 3 0 1 7 1 "\<lambda>_. 0"] by simp

text \<open>
  Claim C3. For every \<open>q\<close>, \<open>sld\<close>, \<open>solvent_sld\<close> and \<open>radius\<close>, the two outputs of
  \<^verbatim>\<open>Fq\<close> satisfy \<open>F2 = F1 \<cdot> F1\<close>: the value in the second output location is the
  product of the value in the first output location with itself.
\<close>

theorem Fq_F2_is_F1_times_F1:
  assumes "F1 \<noteq> F2"
  shows "Fq q F1 F2 sld solvent_sld radius mem F2 =
           Fq q F1 F2 sld solvent_sld radius mem F1 * Fq q F1 F2 sld solvent_sld radius mem F1"
  using assms by (simp add: Fq_first_cell Fq_second_cell)

theorem Fq_F2_is_F1_times_F1_witness:
  "(0::nat) \<noteq> 1 \<and>
   Fq 2 0 1 1 4 (-1) (\<lambda>_. 0) 1 = Fq 2 0 1 1 4 (-1) (\<lambda>_. 0) 0 * Fq 2 0 1 1 4 (-1) (\<lambda>_. 0) 0"
  using Fq_F2_is_F1_times_F1 [of 0 1 2 1 4 "-1" "\<lambda>_. 0"] by simp

text \<open>
  Claim C4. For every \<open>radius > 0\<close>, \<^verbatim>\<open>form_volume(radius)\<close> returns
  \<open>(4/3) \<cdot> \<pi> \<cdot> radius\<^sup>3\<close>, which is the value of the geometry primitive
  \<^verbatim>\<open>sphere_volume(radius)\<close>. The function has the radius as its only argument and
  reads no memory, so its result depends on the radius alone.
\<close>

theorem form_volume_is_sphere_volume:
  assumes "0 < radius"
  shows "form_volume radius = 4 / 3 * pi * radius ^ 3 \<and>
         form_volume radius = sphere_volume radius"
  by (simp add: form_volume_def sphere_volume_def)

theorem form_volume_is_sphere_volume_witness:
  "(0::real) < 3 \<and> form_volume 3 = 4 / 3 * pi * 3 ^ 3 \<and> form_volume 3 = sphere_volume 3 \<and>
   form_volume 3 = 36 * pi"
  using form_volume_is_sphere_volume [of 3] by simp

text \<open>
  Claim C5. At \<open>q = 0\<close>, for every \<open>sld\<close>, \<open>solvent_sld\<close> and \<open>radius > 0\<close>, the
  argument of \<^verbatim>\<open>sas_3j1x_x\<close> is \<open>0\<close>, where its value is exactly \<open>1\<close>; hence \<^verbatim>\<open>Fq\<close>
  stores \<open>F1 = 1e-2 \<cdot> (sld - solvent_sld) \<cdot> sphere_volume(radius)\<close>, a value in which \<open>q\<close>
  does not occur, and stores its square as \<open>F2\<close>.
\<close>

theorem Fq_at_q_zero:
  assumes "0 < radius" and "F1 \<noteq> F2"
  shows "sas_3j1x_x (0 * radius) = 1 \<and>
         Fq 0 F1 F2 sld solvent_sld radius mem F1 =
           0.01 * (sld - solvent_sld) * sphere_volume radius \<and>
         Fq 0 F1 F2 sld solvent_sld radius mem F2 =
           (0.01 * (sld - solvent_sld) * sphere_volume radius) ^ 2"
  using assms(2) by (simp add: Fq_first_cell Fq_second_cell sas_3j1x_x_zero power2_eq_square)

theorem Fq_at_q_zero_witness:
  "(0::real) < 3 \<and> (0::nat) \<noteq> 1 \<and> sas_3j1x_x (0 * 3) = 1 \<and>
   Fq 0 0 1 7 1 3 (\<lambda>_. 0) 0 = 0.01 * (7 - 1) * sphere_volume 3 \<and>
   Fq 0 0 1 7 1 3 (\<lambda>_. 0) 1 = (0.01 * (7 - 1) * sphere_volume 3) ^ 2 \<and>
   Fq 0 0 1 7 1 3 (\<lambda>_. 0) 0 = 54 * pi / 25"
  using Fq_at_q_zero [of 3 0 1 7 1 "\<lambda>_. 0"] by (simp add: sphere_volume_def)

text \<open>
  Claim C6. For every \<open>q \<ge> 0\<close>, \<open>sld\<close>, \<open>sld_solvent\<close> and \<open>radius > 0\<close>, exchanging the
  two scattering-length densities negates the output \<open>F1\<close> of \<^verbatim>\<open>Fq\<close> and changes
  neither its output \<open>F2\<close> nor the value of \<^verbatim>\<open>Iq\<close>.
\<close>

theorem swap_sld_negates_F1:
  assumes "0 \<le> q" and "0 < radius" and "F1 \<noteq> F2"
  shows "Fq q F1 F2 sld_solvent sld radius mem F1 = - Fq q F1 F2 sld sld_solvent radius mem F1 \<and>
         Fq q F1 F2 sld_solvent sld radius mem F2 = Fq q F1 F2 sld sld_solvent radius mem F2 \<and>
         Iq q sld_solvent sld radius = Iq q sld sld_solvent radius"
proof -
  let ?v = "sphere_volume radius"
  let ?j = "sas_3j1x_x (q * radius)"
  have one: "Fq q F1 F2 sld_solvent sld radius mem F1 = 0.01 * (sld_solvent - sld) * ?v * ?j"
    using assms(3) by (rule Fq_first_cell)
  have two: "Fq q F1 F2 sld sld_solvent radius mem F1 = 0.01 * (sld - sld_solvent) * ?v * ?j"
    using assms(3) by (rule Fq_first_cell)
  have swap: "sld_solvent - sld = - (sld - sld_solvent)"
    by simp
  have "0.01 * (sld_solvent - sld) * ?v * ?j = - (0.01 * (sld - sld_solvent) * ?v * ?j)"
    unfolding swap by (simp only: mult_minus_left mult_minus_right)
  with one two
  have "Fq q F1 F2 sld_solvent sld radius mem F1 = - Fq q F1 F2 sld sld_solvent radius mem F1"
    by simp
  moreover
  have "Fq q F1 F2 sld_solvent sld radius mem F2 = Fq q F1 F2 sld sld_solvent radius mem F2"
    unfolding Fq_second_cell swap by (simp only: mult_minus_left mult_minus_right minus_minus)
  moreover
  have "Iq q sld_solvent sld radius = Iq q sld sld_solvent radius"
    by (simp add: Iq_def sphere_form_def Let_def power2_commute)
  ultimately show ?thesis by blast
qed

theorem swap_sld_negates_F1_witness:
  "(0::real) \<le> 2 \<and> (0::real) < 3 \<and> (0::nat) \<noteq> 1 \<and>
   Fq 2 0 1 1 7 3 (\<lambda>_. 0) 0 = - Fq 2 0 1 7 1 3 (\<lambda>_. 0) 0 \<and>
   Fq 2 0 1 1 7 3 (\<lambda>_. 0) 1 = Fq 2 0 1 7 1 3 (\<lambda>_. 0) 1 \<and>
   Iq 2 1 7 3 = Iq 2 7 1 3"
  using swap_sld_negates_F1 [of 2 3 0 1 1 7 "\<lambda>_. 0"] by simp

text \<open>
  Claim C7. For every \<open>q \<ge> 0\<close>, \<open>sld\<close>, \<open>solvent_sld\<close> and \<open>radius > 0\<close>, replacing
  \<open>radius\<close> by \<open>2 \<cdot> radius\<close> and \<open>q\<close> by \<open>q / 2\<close> leaves the product \<open>q \<cdot> radius\<close>
  unchanged, multiplies the result of \<^verbatim>\<open>form_volume\<close> by \<open>8\<close> and multiplies the output
  \<open>F1\<close> of \<^verbatim>\<open>Fq\<close> by \<open>8\<close>.
\<close>

theorem scale_law:
  assumes "0 \<le> q" and "0 < radius" and "F1 \<noteq> F2"
  shows "q / 2 * (2 * radius) = q * radius \<and>
         form_volume (2 * radius) = 8 * form_volume radius \<and>
         Fq (q / 2) F1 F2 sld solvent_sld (2 * radius) mem F1 =
           8 * Fq q F1 F2 sld solvent_sld radius mem F1"
  using assms(3) by (simp add: Fq_first_cell form_volume_def sphere_volume_double)

theorem scale_law_witness:
  "(0::real) \<le> 2 \<and> (0::real) < 3 \<and> (0::nat) \<noteq> 1 \<and>
   2 / 2 * (2 * 3) = (2::real) * 3 \<and>
   form_volume (2 * 3) = 8 * form_volume 3 \<and>
   Fq (2 / 2) 0 1 7 1 (2 * 3) (\<lambda>_. 0) 0 = 8 * Fq 2 0 1 7 1 3 (\<lambda>_. 0) 0"
  using scale_law [of 2 3 0 1 7 1 "\<lambda>_. 0"] by simp

text \<open>
  Claim C8. A call of \<^verbatim>\<open>Fq\<close> changes no memory cell other than the two output
  locations \<^verbatim>\<open>F1\<close> and \<^verbatim>\<open>F2\<close>; the values it leaves there are the same whatever the
  memory held before the call (\<open>mem\<close> and \<open>mem'\<close> are arbitrary), so they depend on
  \<open>q\<close>, \<open>sld\<close>, \<open>solvent_sld\<close> and \<open>radius\<close> only; and a second call with the same
  arguments leaves the memory as the first call left it.
\<close>

theorem Fq_frame:
  "(\<forall>a. a \<noteq> F1 \<and> a \<noteq> F2 \<longrightarrow> Fq q F1 F2 sld solvent_sld radius mem a = mem a) \<and>
   Fq q F1 F2 sld solvent_sld radius mem F1 = Fq q F1 F2 sld solvent_sld radius mem' F1 \<and>
   Fq q F1 F2 sld solvent_sld radius mem F2 = Fq q F1 F2 sld solvent_sld radius mem' F2 \<and>
   Fq q F1 F2 sld solvent_sld radius (Fq q F1 F2 sld solvent_sld radius mem) =
     Fq q F1 F2 sld solvent_sld radius mem"
  by (simp add: Fq_def Let_def)

theorem Fq_frame_witness:
  "(2::nat) \<noteq> 0 \<and> (2::nat) \<noteq> 1 \<and>
   Fq 2 0 1 7 1 3 (\<lambda>a. if a = 2 then 5 else 0) 2 = 5 \<and>
   Fq 2 0 1 7 1 3 (\<lambda>a. if a = 2 then 5 else 0) 0 = Fq 2 0 1 7 1 3 (\<lambda>_. 9) 0 \<and>
   Fq 2 0 1 7 1 3 (\<lambda>a. if a = 2 then 5 else 0) 1 = Fq 2 0 1 7 1 3 (\<lambda>_. 9) 1"
  using Fq_frame [of 0 1 2 7 1 3 "\<lambda>a. if a = 2 then 5 else 0" "\<lambda>_. 9"] by simp

text \<open>
  Claim C10. Zero contrast gives zero amplitude: when \<^verbatim>\<open>Fq\<close> is called with
  \<open>sld = solvent_sld\<close>, it stores \<open>F1 = 0\<close> and \<open>F2 = 0\<close>, whatever \<open>q\<close> and \<open>radius\<close>
  are. The claim asks for \<^verbatim>\<open>sphere_volume(radius)\<close> and \<^verbatim>\<open>sas_3j1x_x(q*radius)\<close> to be
  finite; every value of the real-valued model is finite, so this holds for all arguments.
\<close>

theorem zero_contrast_zero_amplitude:
  assumes "F1 \<noteq> F2"
  shows "Fq q F1 F2 sld sld radius mem F1 = 0 \<and> Fq q F1 F2 sld sld radius mem F2 = 0"
  using assms by (simp add: Fq_first_cell Fq_second_cell)

theorem zero_contrast_zero_amplitude_witness:
  "(0::nat) \<noteq> 1 \<and> Fq 2 0 1 7 7 3 (\<lambda>_. 4) 0 = 0 \<and> Fq 2 0 1 7 7 3 (\<lambda>_. 4) 1 = 0"
  using zero_contrast_zero_amplitude [of 0 1 2 7 3 "\<lambda>_. 4"] by simp

end
